theory Spec2Isabelle
  imports Complex_Main
begin

section \<open>Numbers, strings and errors\<close>

text \<open>
  Python floats are modelled as the real numbers they approximate: every constant of
  the source is an exact decimal here, and no rounding is modelled. Python strings are
  lists of code points; every code point of the source's configuration strings is below
  256 and is one \<^typ>\<open>char\<close>.
\<close>

datatype py_error = KeyError

section \<open>The configuration table (\<open>_get_earth_config\<close>)\<close>

record config =
  base_value :: real
  cycle_years :: real
  amplitude :: real
  trend :: string
  unit :: string
  description :: string

definition croissante :: string where
  "croissante = ''croissante''"

definition decroissante :: string where
  "decroissante = ''d'' @ [CHR 0xE9] @ ''croissante''"

definition configs :: "(string \<times> config) list" where
  "configs =
    [(''temperature'',
        \<lparr>base_value = 14.0, cycle_years = 1.0, amplitude = 15.0, trend = croissante,
         unit = [CHR 0xB0] @ ''C'',
         description = ''Temp'' @ [CHR 0xE9] @ ''rature moyenne globale''\<rparr>),
     (''co2'',
        \<lparr>base_value = 280, cycle_years = 1.0, amplitude = 10, trend = croissante,
         unit = ''ppm'',
         description = ''Concentration de CO2 atmosph'' @ [CHR 0xE9] @ ''rique''\<rparr>),
     (''sea_level'',
        \<lparr>base_value = 0, cycle_years = 1.0, amplitude = 5, trend = croissante,
         unit = ''mm'',
         description = [CHR 0xC9] @ ''l'' @ [CHR 0xE9] @ ''vation du niveau de la mer''\<rparr>),
     (''precipitation'',
        \<lparr>base_value = 1000, cycle_years = 1.0, amplitude = 300, trend = ''variable'',
         unit = ''mm/an'',
         description = ''Pr'' @ [CHR 0xE9] @ ''cipitations annuelles''\<rparr>),
     (''glaciers'',
        \<lparr>base_value = 100, cycle_years = 10.0, amplitude = 30, trend = decroissante,
         unit = ''% de masse'',
         description = ''Masse des glaciers''\<rparr>),
     (''biodiversity'',
        \<lparr>base_value = 100, cycle_years = 10.0, amplitude = 20, trend = decroissante,
         unit = ''Index de diversit'' @ [CHR 0xE9],
         description = ''Diversit'' @ [CHR 0xE9] @ '' biologique''\<rparr>),
     (''air_quality'',
        \<lparr>base_value = 50, cycle_years = 1.0, amplitude = 30, trend = ''variable'',
         unit = ''AQI'',
         description = ''Qualit'' @ [CHR 0xE9] @ '' de l'' @ [CHR 0x27] @ ''air''\<rparr>),
     (''ocean_ph'',
        \<lparr>base_value = 8.1, cycle_years = 10.0, amplitude = 0.3, trend = decroissante,
         unit = ''pH'',
         description = ''Acidification des oc'' @ [CHR 0xE9] @ ''ans''\<rparr>),
     (''default'',
        \<lparr>base_value = 100, cycle_years = 1.0, amplitude = 20, trend = ''stable'',
         unit = ''Unit'' @ [CHR 0xE9] @ ''s'',
         description = ''Donn'' @ [CHR 0xE9] @ ''es terrestres g'' @ [CHR 0xE9]
                       @ ''n'' @ [CHR 0xE9] @ ''riques''\<rparr>)]"

text \<open>\<open>d[k]\<close> raises \<open>KeyError\<close> on a missing key; \<open>d.get(k, v)\<close> never does.\<close>

definition dict_index :: "(string \<times> 'v) list \<Rightarrow> string \<Rightarrow> py_error + 'v" where
  "dict_index d k = (case map_of d k of None \<Rightarrow> Inl KeyError | Some v \<Rightarrow> Inr v)"

definition dict_get :: "(string \<times> 'v) list \<Rightarrow> string \<Rightarrow> 'v \<Rightarrow> 'v" where
  "dict_get d k v = (case map_of d k of None \<Rightarrow> v | Some w \<Rightarrow> w)"

text \<open>
  \<open>return configs.get(self.data_type, configs["default"])\<close>: the fallback argument is
  evaluated first, whatever the key.
\<close>

definition get_earth_config :: "string \<Rightarrow> py_error + config" where
  "get_earth_config data_type =
     (case dict_index configs ''default'' of
        Inl e \<Rightarrow> Inl e
      | Inr dflt \<Rightarrow> Inr (dict_get configs data_type dflt))"

definition supported_keys :: "string list" where
  "supported_keys = [''temperature'', ''co2'', ''sea_level'', ''precipitation'',
                     ''glaciers'', ''biodiversity'', ''air_quality'', ''ocean_ph'']"

section \<open>The analyzer object (\<open>EarthDataAnalyzer.__init__\<close>)\<close>

record analyzer =
  data_type :: string
  start_year :: int
  end_year :: int
  config :: config

definition EarthDataAnalyzer :: "string \<Rightarrow> py_error + analyzer" where
  "EarthDataAnalyzer dt =
     (case get_earth_config dt of
        Inl e \<Rightarrow> Inl e
      | Inr c \<Rightarrow> Inr \<lparr>data_type = dt, start_year = 1850, end_year = 2025, config = c\<rparr>)"

section \<open>Dates and the random source\<close>

record date =
  year :: int
  month :: nat
  day :: nat

definition date_le :: "date \<Rightarrow> date \<Rightarrow> bool" where
  "date_le a b =
     (year a < year b \<or>
      (year a = year b \<and> (month a < month b \<or> (month a = month b \<and> day a \<le> day b))))"

text \<open>
  \<open>pd.date_range(start, end, freq='Y')\<close>: the year-end anchors (31 December) that lie
  between \<open>start\<close> and \<open>end\<close>, both included, in ascending order.
\<close>

definition date_range_Y :: "date \<Rightarrow> date \<Rightarrow> date list" where
  "date_range_Y s e =
     filter (\<lambda>d. date_le s d \<and> date_le d e)
            (map (\<lambda>y. \<lparr>year = y, month = 12, day = 31\<rparr>) [year s..year e])"

text \<open>
  NumPy's global generator is a state that every draw advances. The \<open>k\<close>-th draw of a
  run is \<open>gauss k\<close> when it is a standard normal deviate and \<open>unif k\<close> when it is a
  uniform one; \<open>pos\<close> counts the draws made so far.
  \<open>np.random.normal(loc, scale)\<close> is \<open>loc + scale * z\<close> for a standard deviate \<open>z\<close>.
\<close>

record rng =
  gauss :: "nat \<Rightarrow> real"
  unif :: "nat \<Rightarrow> real"
  pos :: nat

definition random_normal :: "real \<Rightarrow> real \<Rightarrow> rng \<Rightarrow> real \<times> rng" where
  "random_normal loc scale g = (loc + scale * gauss g (pos g), g\<lparr>pos := Suc (pos g)\<rparr>)"

definition random_random :: "rng \<Rightarrow> real \<times> rng" where
  "random_random g = (unif g (pos g), g\<lparr>pos := Suc (pos g)\<rparr>)"

text \<open>
  \<open>for x in xs: ...; out.append(v)\<close> with the generator threaded through the
  iterations.
\<close>

fun for_each :: "('a \<Rightarrow> rng \<Rightarrow> 'b \<times> rng) \<Rightarrow> 'a list \<Rightarrow> rng \<Rightarrow> 'b list \<times> rng" where
  "for_each f [] g = ([], g)"
| "for_each f (x # xs) g =
     (let (v, g1) = f x g; (vs, g2) = for_each f xs g1 in (v # vs, g2))"

section \<open>The column generators\<close>

definition earth_cycle_at :: "analyzer \<Rightarrow> date \<Rightarrow> rng \<Rightarrow> real \<times> rng" where
  "earth_cycle_at a d g =
     (let y = year d;
          annual_cycle =
            sin (2 * pi * real_of_int (y - start_year a) / cycle_years (config a));
          trend_factor =
            (if trend (config a) = croissante then 1 + 0.01 * real_of_int (y - 1850) / 100
             else if trend (config a) = decroissante then 1 - 0.01 * real_of_int (y - 1850) / 100
             else 1.0);
          v = base_value (config a) * trend_factor + amplitude (config a) * annual_cycle;
          (noise, g1) = random_normal 0 (amplitude (config a) * 0.05) g
      in (v + noise, g1))"

definition simulate_earth_cycle :: "analyzer \<Rightarrow> date list \<Rightarrow> rng \<Rightarrow> real list \<times> rng" where
  "simulate_earth_cycle a dates g = for_each (earth_cycle_at a) dates g"

definition seasonal_minimum_at :: "analyzer \<Rightarrow> date \<Rightarrow> real" where
  "seasonal_minimum_at a d =
     (let seasonal_phase = frac (real_of_int (year d - start_year a))
      in if data_type a = ''temperature''
         then (if seasonal_phase < 0.25 \<or> seasonal_phase > 0.75 then 0.7 else 1.0)
         else 0.8 + 0.2 * sin (2 * pi * seasonal_phase))"

definition simulate_seasonal_minima :: "analyzer \<Rightarrow> date list \<Rightarrow> real list" where
  "simulate_seasonal_minima a dates = map (seasonal_minimum_at a) dates"

definition seasonal_maximum_at :: "analyzer \<Rightarrow> date \<Rightarrow> real" where
  "seasonal_maximum_at a d =
     (let seasonal_phase = frac (real_of_int (year d - start_year a))
      in if data_type a = ''temperature''
         then (if 0.25 \<le> seasonal_phase \<and> seasonal_phase \<le> 0.75 then 1.0 else 0.8)
         else 1.0 + 0.2 * sin (2 * pi * seasonal_phase))"

definition simulate_seasonal_maxima :: "analyzer \<Rightarrow> date list \<Rightarrow> real list" where
  "simulate_seasonal_maxima a dates = map (seasonal_maximum_at a) dates"

definition simulate_annual_cycle :: "analyzer \<Rightarrow> date list \<Rightarrow> real list" where
  "simulate_annual_cycle a dates =
     map (\<lambda>d. frac (real_of_int (year d - start_year a))) dates"

definition climate_trend_at :: "int \<Rightarrow> real" where
  "climate_trend_at y =
     (if y < 1900 then 1.0
      else if 1900 \<le> y \<and> y < 1950 then 1.0 + 0.002 * real_of_int (y - 1900)
      else if 1950 \<le> y \<and> y < 1980 then 1.02 + 0.005 * real_of_int (y - 1950)
      else if 1980 \<le> y \<and> y < 2000 then 1.1 + 0.01 * real_of_int (y - 1980)
      else 1.3 + 0.015 * real_of_int (y - 2000))"

definition simulate_climate_trend :: "date list \<Rightarrow> real list" where
  "simulate_climate_trend dates = map (\<lambda>d. climate_trend_at (year d)) dates"

definition extreme_event_at :: "date \<Rightarrow> rng \<Rightarrow> real \<times> rng" where
  "extreme_event_at d g =
     (let y = year d;
          base_prob = 0.1;
          time_factor = 0.001 * real_of_int (y - 1850);
          extreme_prob = min 0.8 (base_prob + time_factor);
          (u, g1) = random_random g;
          intensity = (if u < extreme_prob then 1.0 + 0.5 * real_of_int (y - 1850) / 100
                       else 1.0)
      in (intensity, g1))"

definition simulate_extreme_events :: "date list \<Rightarrow> rng \<Rightarrow> real list \<times> rng" where
  "simulate_extreme_events dates g = for_each extreme_event_at dates g"

definition human_impact_at :: "int \<Rightarrow> real" where
  "human_impact_at y =
     (if y < 1800 then 1.0
      else if 1800 \<le> y \<and> y < 1900 then 1.0 + 0.005 * real_of_int (y - 1800)
      else if 1900 \<le> y \<and> y < 1950 then 1.5 + 0.01 * real_of_int (y - 1900)
      else if 1950 \<le> y \<and> y < 1980 then 2.0 + 0.02 * real_of_int (y - 1950)
      else if 1980 \<le> y \<and> y < 2000 then 2.6 + 0.03 * real_of_int (y - 1980)
      else 3.2 + 0.04 * real_of_int (y - 2000))"

definition simulate_human_impact :: "date list \<Rightarrow> real list" where
  "simulate_human_impact dates = map (\<lambda>d. human_impact_at (year d)) dates"

text \<open>\<open>xs[s:e]\<close> for \<open>0 \<le> s\<close> and \<open>0 \<le> e\<close>, and \<open>np.mean\<close> of a non-empty list.\<close>

definition slice :: "'a list \<Rightarrow> int \<Rightarrow> int \<Rightarrow> 'a list" where
  "slice xs s e = take (nat e - nat s) (drop (nat s) xs)"

definition mean :: "real list \<Rightarrow> real" where
  "mean xs = sum_list xs / real (length xs)"

definition window_bounds :: "nat \<Rightarrow> nat \<Rightarrow> int \<times> int" where
  "window_bounds n i = (max 0 (int i - 5), min (int n) (int i + 5))"

definition smoothed_at :: "real list \<Rightarrow> nat \<Rightarrow> real" where
  "smoothed_at base_cycle i =
     (let (start_idx, end_idx) = window_bounds (length base_cycle) i;
          window = slice base_cycle start_idx end_idx
      in mean window)"

definition simulate_smoothed_data :: "analyzer \<Rightarrow> date list \<Rightarrow> rng \<Rightarrow> real list \<times> rng" where
  "simulate_smoothed_data a dates g =
     (let (base_cycle, g1) = simulate_earth_cycle a dates g
      in (map (smoothed_at base_cycle) [0..<length base_cycle], g1))"

definition simulate_monthly_variation :: "date list \<Rightarrow> real list" where
  "simulate_monthly_variation dates =
     map (\<lambda>d. 1 + 0.1 * sin (2 * pi * (real (month d) - 1) / 12)) dates"

definition simulate_decadal_variation :: "analyzer \<Rightarrow> date list \<Rightarrow> real list" where
  "simulate_decadal_variation a dates =
     map (\<lambda>d. 1 + 0.05 * sin (2 * pi * real_of_int (year d - start_year a) / 10)) dates"

definition simulate_environmental_index ::
  "analyzer \<Rightarrow> date list \<Rightarrow> rng \<Rightarrow> real list \<times> rng" where
  "simulate_environmental_index a dates g =
     (let (base_cycle, g1) = simulate_earth_cycle a dates g;
          climate_trend = simulate_climate_trend dates
      in (map (\<lambda>i. base_cycle ! i * 0.6 + climate_trend ! i * base_value (config a) * 0.4)
              [0..<length dates], g1))"

definition simulate_risk_level :: "date list \<Rightarrow> rng \<Rightarrow> real list \<times> rng" where
  "simulate_risk_level dates g =
     (let human_impact = simulate_human_impact dates;
          (extreme_events, g1) = simulate_extreme_events dates g
      in (map (\<lambda>i. min 100 (human_impact ! i * 20 + (extreme_events ! i - 1) * 50))
              [0..<length dates], g1))"

definition future_projection_at ::
  "analyzer \<Rightarrow> date \<times> real \<times> real \<Rightarrow> rng \<Rightarrow> real \<times> rng" where
  "future_projection_at a x g =
     (let (d, current_value, trend_factor) = x;
          y = year d
      in if y > 2020
         then (let years_since_2020 = y - 2020;
                   uncertainty = 0.03 * real_of_int years_since_2020
               in if trend (config a) = croissante
                  then (let (z, g1) = random_normal 0.02 uncertainty g
                        in (current_value * trend_factor * (1 + z), g1))
                  else if trend (config a) = decroissante
                  then (let (z, g1) = random_normal 0.01 uncertainty g
                        in (current_value * trend_factor * (1 - z), g1))
                  else (let (z, g1) = random_normal 0 uncertainty g
                        in (current_value * (1 + z), g1)))
         else (current_value, g))"

definition simulate_future_projection ::
  "analyzer \<Rightarrow> date list \<Rightarrow> rng \<Rightarrow> real list \<times> rng" where
  "simulate_future_projection a dates g =
     (let (base_cycle, g1) = simulate_earth_cycle a dates g;
          climate_trend = simulate_climate_trend dates
      in for_each (future_projection_at a) (zip dates (zip base_cycle climate_trend)) g1)"

section \<open>The table and the event overlay (\<open>_add_climate_events\<close>)\<close>

record row =
  Year :: int
  Base_Value :: real
  Seasonal_Min :: real
  Seasonal_Max :: real
  Annual_Cycle :: real
  Climate_Trend :: real
  Extreme_Events :: real
  Human_Impact :: real
  Smoothed_Value :: real
  Monthly_Variation :: real
  Decadal_Variation :: real
  Environmental_Index :: real
  Risk_Level :: real
  Future_Projection :: real

text \<open>
  The \<open>if\<close>/\<open>elif\<close> chain of the overlay, conditions and bodies apart. A condition
  that is a bare integer literal is tested for truth as Python does: it holds unless the
  integer is zero.
\<close>

datatype branch =
  Tambora_1815 | Dust_Bowl_1930 | El_Nino_1982 | El_Nino_1997
  | Heatwave_2003 | Katrina_2005 | Texas_2011 | Australia_2019 | Record_2020
  | No_Branch

definition truthy :: "int \<Rightarrow> bool" where
  "truthy n = (n \<noteq> 0)"

definition event_branch :: "int \<Rightarrow> branch" where
  "event_branch y =
     (if 1815 \<le> y \<and> y \<le> 1816 then Tambora_1815
      else if 1930 \<le> y \<and> y \<le> 1939 then Dust_Bowl_1930
      else if 1982 \<le> y \<and> y \<le> 1983 then El_Nino_1982
      else if 1997 \<le> y \<and> y \<le> 1998 then El_Nino_1997
      else if truthy 2003 then Heatwave_2003
      else if truthy 2005 then Katrina_2005
      else if truthy 2011 then Texas_2011
      else if truthy 2019 then Australia_2019
      else if truthy 2020 then Record_2020
      else No_Branch)"

fun branch_body :: "analyzer \<Rightarrow> branch \<Rightarrow> row \<Rightarrow> row" where
  "branch_body a Tambora_1815 r =
     r\<lparr>Base_Value := Base_Value r * 0.9, Risk_Level := Risk_Level r * 1.2\<rparr>"
| "branch_body a Dust_Bowl_1930 r =
     (if data_type a \<in> set [''temperature'', ''precipitation'']
      then r\<lparr>Base_Value := Base_Value r * 1.1, Risk_Level := Risk_Level r * 1.3\<rparr>
      else r)"
| "branch_body a El_Nino_1982 r =
     r\<lparr>Base_Value := Base_Value r * 1.05, Extreme_Events := Extreme_Events r * 1.5\<rparr>"
| "branch_body a El_Nino_1997 r =
     r\<lparr>Base_Value := Base_Value r * 1.08, Extreme_Events := Extreme_Events r * 1.8\<rparr>"
| "branch_body a Heatwave_2003 r =
     (if data_type a = ''temperature''
      then (let r1 = r\<lparr>Base_Value := Base_Value r * 1.1\<rparr>
            in r1\<lparr>Risk_Level := min 100 (Risk_Level r1 * 1.4)\<rparr>)
      else r)"
| "branch_body a Katrina_2005 r = r\<lparr>Extreme_Events := Extreme_Events r * 1.6\<rparr>"
| "branch_body a Texas_2011 r = r\<lparr>Risk_Level := Risk_Level r * 1.3\<rparr>"
| "branch_body a Australia_2019 r =
     (if data_type a \<in> set [''temperature'', ''air_quality'']
      then r\<lparr>Base_Value := Base_Value r * 1.05, Risk_Level := Risk_Level r * 1.2\<rparr>
      else r)"
| "branch_body a Record_2020 r =
     (if data_type a = ''temperature'' then r\<lparr>Base_Value := Base_Value r * 1.02\<rparr> else r)"
| "branch_body a No_Branch r = r"

text \<open>
  \<open>for i, row in df.iterrows()\<close>: the rows are visited by position and row \<open>i\<close> of
  the table is rewritten in place.
\<close>

definition add_climate_events :: "analyzer \<Rightarrow> row list \<Rightarrow> row list" where
  "add_climate_events a df =
     fold (\<lambda>i t. t[i := branch_body a (event_branch (Year (t ! i))) (t ! i)])
          [0..<length df] df"

section \<open>The series builder (\<open>generate_earth_data\<close>)\<close>

text \<open>The table before the overlay: the thirteen generators run in the source's order.\<close>

definition year_dates :: "analyzer \<Rightarrow> date list" where
  "year_dates a = date_range_Y \<lparr>year = start_year a, month = 1, day = 1\<rparr>
                               \<lparr>year = end_year a, month = 12, day = 31\<rparr>"

definition build_frame :: "analyzer \<Rightarrow> rng \<Rightarrow> row list \<times> rng" where
  "build_frame a g =
     (let dates = year_dates a;
          c_year = map year dates;
          (c_base, g1) = simulate_earth_cycle a dates g;
          c_smin = simulate_seasonal_minima a dates;
          c_smax = simulate_seasonal_maxima a dates;
          c_annual = simulate_annual_cycle a dates;
          c_climate = simulate_climate_trend dates;
          (c_extreme, g2) = simulate_extreme_events dates g1;
          c_human = simulate_human_impact dates;
          (c_smooth, g3) = simulate_smoothed_data a dates g2;
          c_monthly = simulate_monthly_variation dates;
          c_decadal = simulate_decadal_variation a dates;
          (c_env, g4) = simulate_environmental_index a dates g3;
          (c_risk, g5) = simulate_risk_level dates g4;
          (c_future, g6) = simulate_future_projection a dates g5
      in (map (\<lambda>i. \<lparr>Year = c_year ! i, Base_Value = c_base ! i,
                     Seasonal_Min = c_smin ! i, Seasonal_Max = c_smax ! i,
                     Annual_Cycle = c_annual ! i, Climate_Trend = c_climate ! i,
                     Extreme_Events = c_extreme ! i, Human_Impact = c_human ! i,
                     Smoothed_Value = c_smooth ! i, Monthly_Variation = c_monthly ! i,
                     Decadal_Variation = c_decadal ! i, Environmental_Index = c_env ! i,
                     Risk_Level = c_risk ! i, Future_Projection = c_future ! i\<rparr>)
              [0..<length c_year], g6))"

definition generate_earth_data :: "analyzer \<Rightarrow> rng \<Rightarrow> row list \<times> rng" where
  "generate_earth_data a g =
     (let (df, g1) = build_frame a g in (add_climate_events a df, g1))"

section \<open>Named values used in the statements below\<close>

text \<open>The \<open>"default"\<close> entry of the table.\<close>

definition default_config :: config where
  "default_config =
     \<lparr>base_value = 100, cycle_years = 1, amplitude = 20, trend = ''stable'',
      unit = ''Unit'' @ [CHR 0xE9] @ ''s'',
      description = ''Donn'' @ [CHR 0xE9] @ ''es terrestres g'' @ [CHR 0xE9]
                    @ ''n'' @ [CHR 0xE9] @ ''riques''\<rparr>"

text \<open>The analyzers that \<open>EarthDataAnalyzer("co2")\<close> and \<open>EarthDataAnalyzer("temperature")\<close> build.\<close>

definition co2_analyzer :: analyzer where
  "co2_analyzer =
     \<lparr>data_type = ''co2'', start_year = 1850, end_year = 2025,
      config = \<lparr>base_value = 280, cycle_years = 1, amplitude = 10, trend = croissante,
                unit = ''ppm'',
                description = ''Concentration de CO2 atmosph'' @ [CHR 0xE9] @ ''rique''\<rparr>\<rparr>"

definition temperature_analyzer :: analyzer where
  "temperature_analyzer =
     \<lparr>data_type = ''temperature'', start_year = 1850, end_year = 2025,
      config = \<lparr>base_value = 14, cycle_years = 1, amplitude = 15, trend = croissante,
                unit = [CHR 0xB0] @ ''C'',
                description = ''Temp'' @ [CHR 0xE9] @ ''rature moyenne globale''\<rparr>\<rparr>"

text \<open>
  A generator whose first normal deviate is 1 and whose other normal deviates are 0; its
  uniform draws are all 1, so that no extreme event is ever drawn.
\<close>

definition spike_rng :: rng where
  "spike_rng = \<lparr>gauss = (\<lambda>k. if k = 0 then 1 else 0), unif = (\<lambda>k. 1), pos = 0\<rparr>"

text \<open>A two-row table with a row for 1815 and a row for 1997.\<close>

definition sample_row :: "int \<Rightarrow> row" where
  "sample_row y =
     \<lparr>Year = y, Base_Value = 10, Seasonal_Min = 1, Seasonal_Max = 1, Annual_Cycle = 0,
      Climate_Trend = 1, Extreme_Events = 2, Human_Impact = 1, Smoothed_Value = 10,
      Monthly_Variation = 1, Decadal_Variation = 1, Environmental_Index = 10,
      Risk_Level = 50, Future_Projection = 10\<rparr>"

definition sample_frame :: "row list" where
  "sample_frame = [sample_row 1815, sample_row 1997]"

section \<open>Auxiliary facts about the loops and the columns\<close>

lemma for_each_Cons:
  "for_each f (x # xs) g =
     (fst (f x g) # fst (for_each f xs (snd (f x g))), snd (for_each f xs (snd (f x g))))"
  by (simp add: split_def Let_def)

lemma for_each_length: "length (fst (for_each f xs g)) = length xs"
  by (induction xs arbitrary: g) (simp_all add: for_each_Cons del: for_each.simps(2))

lemma for_each_pos:
  assumes "\<And>x g. snd (f x g) = g\<lparr>pos := Suc (pos g)\<rparr>"
  shows "snd (for_each f xs g) = g\<lparr>pos := pos g + length xs\<rparr>"
  by (induction xs arbitrary: g) (simp_all add: for_each_Cons assms del: for_each.simps(2))

lemma for_each_nth:
  assumes "\<And>x g. snd (f x g) = g\<lparr>pos := Suc (pos g)\<rparr>" and "i < length xs"
  shows "fst (for_each f xs g) ! i = fst (f (xs ! i) (g\<lparr>pos := pos g + i\<rparr>))"
  using assms(2)
proof (induction xs arbitrary: g i)
  case Nil then show ?case by simp
next
  case (Cons x xs)
  show ?case
  proof (cases i)
    case 0 then show ?thesis by (simp add: for_each_Cons del: for_each.simps(2))
  next
    case (Suc j)
    then have "j < length xs" using Cons.prems by simp
    from Cons.IH[OF this, of "snd (f x g)"] show ?thesis using Suc
      by (simp add: for_each_Cons assms(1) del: for_each.simps(2))
  qed
qed

lemma for_each_nth_const:
  assumes "i < length xs" and "\<And>g. fst (f (xs ! i) g) = v"
  shows "fst (for_each f xs g) ! i = v"
  using assms
proof (induction xs arbitrary: g i)
  case Nil then show ?case by simp
next
  case (Cons x xs)
  show ?case
  proof (cases i)
    case 0 then show ?thesis using Cons.prems(2)[of g]
      by (simp add: for_each_Cons del: for_each.simps(2))
  next
    case (Suc j)
    then have "j < length xs" using Cons.prems(1) by simp
    moreover have "\<And>g. fst (f (xs ! j) g) = v" using Cons.prems(2) Suc by simp
    ultimately show ?thesis using Cons.IH[of j "snd (f x g)"] Suc
      by (simp add: for_each_Cons del: for_each.simps(2))
  qed
qed

lemma earth_cycle_at_snd [simp]: "snd (earth_cycle_at a d g) = g\<lparr>pos := Suc (pos g)\<rparr>"
  by (simp add: earth_cycle_at_def random_normal_def Let_def)

lemma extreme_event_at_snd [simp]: "snd (extreme_event_at d g) = g\<lparr>pos := Suc (pos g)\<rparr>"
  by (simp add: extreme_event_at_def random_random_def Let_def)

lemma earth_cycle_length [simp]: "length (fst (simulate_earth_cycle a ds g)) = length ds"
  by (simp add: simulate_earth_cycle_def for_each_length)

lemma earth_cycle_snd [simp]:
  "snd (simulate_earth_cycle a ds g) = g\<lparr>pos := pos g + length ds\<rparr>"
  by (simp add: simulate_earth_cycle_def for_each_pos)

lemma earth_cycle_nth:
  "i < length ds \<Longrightarrow>
   fst (simulate_earth_cycle a ds g) ! i = fst (earth_cycle_at a (ds ! i) (g\<lparr>pos := pos g + i\<rparr>))"
  by (simp add: simulate_earth_cycle_def for_each_nth)

lemma extreme_events_length [simp]: "length (fst (simulate_extreme_events ds g)) = length ds"
  by (simp add: simulate_extreme_events_def for_each_length)

lemma extreme_events_snd [simp]:
  "snd (simulate_extreme_events ds g) = g\<lparr>pos := pos g + length ds\<rparr>"
  by (simp add: simulate_extreme_events_def for_each_pos)

lemma extreme_events_nth:
  "i < length ds \<Longrightarrow>
   fst (simulate_extreme_events ds g) ! i = fst (extreme_event_at (ds ! i) (g\<lparr>pos := pos g + i\<rparr>))"
  by (simp add: simulate_extreme_events_def for_each_nth)

lemma smoothed_fst:
  "fst (simulate_smoothed_data a ds g) =
     map (smoothed_at (fst (simulate_earth_cycle a ds g))) [0..<length ds]"
  by (simp add: simulate_smoothed_data_def split_def Let_def)

lemma smoothed_snd [simp]:
  "snd (simulate_smoothed_data a ds g) = g\<lparr>pos := pos g + length ds\<rparr>"
  by (simp add: simulate_smoothed_data_def split_def Let_def)

lemma environmental_index_snd [simp]:
  "snd (simulate_environmental_index a ds g) = g\<lparr>pos := pos g + length ds\<rparr>"
  by (simp add: simulate_environmental_index_def split_def Let_def)

lemma risk_level_fst:
  "fst (simulate_risk_level ds g) =
     map (\<lambda>i. min 100 (simulate_human_impact ds ! i * 20
                         + (fst (simulate_extreme_events ds g) ! i - 1) * 50))
         [0..<length ds]"
  by (simp add: simulate_risk_level_def split_def Let_def)

lemma risk_level_snd [simp]:
  "snd (simulate_risk_level ds g) = g\<lparr>pos := pos g + length ds\<rparr>"
  by (simp add: simulate_risk_level_def split_def Let_def)

lemma future_projection_length [simp]:
  "length (fst (simulate_future_projection a ds g)) = length ds"
  by (simp add: simulate_future_projection_def split_def Let_def for_each_length
                simulate_climate_trend_def)

lemma future_projection_nth:
  assumes "i < length ds" and "year (ds ! i) \<le> 2020"
  shows "fst (simulate_future_projection a ds g) ! i
         = fst (earth_cycle_at a (ds ! i) (g\<lparr>pos := pos g + i\<rparr>))"
proof -
  let ?bc = "fst (simulate_earth_cycle a ds g)"
  let ?xs = "zip ds (zip ?bc (simulate_climate_trend ds))"
  have len: "i < length ?xs" using assms(1) by (simp add: simulate_climate_trend_def)
  have "\<And>g'. fst (future_projection_at a (?xs ! i) g') = ?bc ! i"
    using assms by (simp add: future_projection_at_def simulate_climate_trend_def Let_def)
  then have "fst (for_each (future_projection_at a) ?xs (snd (simulate_earth_cycle a ds g))) ! i
             = ?bc ! i"
    using len by (rule for_each_nth_const[rotated])
  then show ?thesis using assms(1)
    by (simp add: simulate_future_projection_def split_def Let_def earth_cycle_nth)
qed

lemma frame_length: "length (fst (build_frame a g)) = length (year_dates a)"
  by (simp add: build_frame_def split_def Let_def)

lemma frame_Year:
  "i < length (year_dates a) \<Longrightarrow> Year (fst (build_frame a g) ! i) = year (year_dates a ! i)"
  by (simp add: build_frame_def split_def Let_def)

lemma frame_Base_Value:
  "i < length (year_dates a) \<Longrightarrow>
   Base_Value (fst (build_frame a g) ! i)
   = fst (earth_cycle_at a (year_dates a ! i) (g\<lparr>pos := pos g + i\<rparr>))"
  by (simp add: build_frame_def split_def Let_def earth_cycle_nth)

lemma frame_Extreme_Events:
  "i < length (year_dates a) \<Longrightarrow>
   Extreme_Events (fst (build_frame a g) ! i)
   = fst (extreme_event_at (year_dates a ! i)
            (g\<lparr>pos := pos g + length (year_dates a) + i\<rparr>))"
  by (simp add: build_frame_def split_def Let_def extreme_events_nth)

lemma frame_Smoothed_Value:
  "i < length (year_dates a) \<Longrightarrow>
   Smoothed_Value (fst (build_frame a g) ! i)
   = smoothed_at (fst (simulate_earth_cycle a (year_dates a)
                         (g\<lparr>pos := pos g + 2 * length (year_dates a)\<rparr>))) i"
proof -
  have e: "pos g + length (year_dates a) + length (year_dates a)
           = pos g + 2 * length (year_dates a)" by simp
  assume "i < length (year_dates a)"
  then show ?thesis
    by (simp add: build_frame_def split_def Let_def smoothed_fst e)
qed

lemma frame_Risk_Level:
  "i < length (year_dates a) \<Longrightarrow>
   Risk_Level (fst (build_frame a g) ! i)
   = min 100 (human_impact_at (year (year_dates a ! i)) * 20
              + (fst (extreme_event_at (year_dates a ! i)
                        (g\<lparr>pos := pos g + 4 * length (year_dates a) + i\<rparr>)) - 1) * 50)"
proof -
  have e: "pos g + length (year_dates a) + length (year_dates a) + length (year_dates a)
             + length (year_dates a) + i
           = pos g + 4 * length (year_dates a) + i" by simp
  assume "i < length (year_dates a)"
  then show ?thesis
    by (simp add: build_frame_def split_def Let_def risk_level_fst extreme_events_nth
                  simulate_human_impact_def e)
qed

lemma frame_Future_Projection:
  "i < length (year_dates a) \<Longrightarrow> year (year_dates a ! i) \<le> 2020 \<Longrightarrow>
   Future_Projection (fst (build_frame a g) ! i)
   = fst (earth_cycle_at a (year_dates a ! i)
            (g\<lparr>pos := pos g + 5 * length (year_dates a) + i\<rparr>))"
proof -
  have e: "pos g + length (year_dates a) + length (year_dates a) + length (year_dates a)
             + length (year_dates a) + length (year_dates a) + i
           = pos g + 5 * length (year_dates a) + i" by simp
  assume "i < length (year_dates a)" and "year (year_dates a ! i) \<le> 2020"
  then show ?thesis
    by (simp add: build_frame_def split_def Let_def future_projection_nth e)
qed

lemma overlay_fold:
  "k \<le> length df \<Longrightarrow>
   fold (\<lambda>i t. t[i := branch_body a (event_branch (Year (t ! i))) (t ! i)]) [0..<k] df
   = map (\<lambda>r. branch_body a (event_branch (Year r)) r) (take k df) @ drop k df"
proof (induction k)
  case 0 then show ?case by simp
next
  case (Suc k)
  then have k: "k < length df" by simp
  let ?h = "\<lambda>r. branch_body a (event_branch (Year r)) r"
  have "(map ?h (take k df) @ drop k df) ! k = df ! k"
    using k by (simp add: nth_append)
  moreover have "(map ?h (take k df) @ drop k df)[k := ?h (df ! k)]
                 = map ?h (take (Suc k) df) @ drop (Suc k) df"
    using k by (simp add: list_update_append take_Suc_conv_app_nth
                          Cons_nth_drop_Suc[symmetric])
  ultimately show ?case using Suc k by simp
qed

lemma add_climate_events_map:
  "add_climate_events a df = map (\<lambda>r. branch_body a (event_branch (Year r)) r) df"
  using overlay_fold[of "length df" df a] by (simp add: add_climate_events_def)

lemma generate_fst:
  "fst (generate_earth_data a g)
   = map (\<lambda>r. branch_body a (event_branch (Year r)) r) (fst (build_frame a g))"
  by (simp add: generate_earth_data_def split_def Let_def add_climate_events_map)

section \<open>The configuration lookup\<close>

lemma get_earth_config_eq:
  "get_earth_config k = Inr (dict_get configs k default_config)"
  by (simp add: get_earth_config_def dict_index_def configs_def default_config_def)

text \<open>
  Claim C8, as the code has it. The lookup never fails. For each of the eight supported
  keys the profile has a non-negative amplitude and a positive cycle length. For every
  other key the result is the \<open>"default"\<close> entry: base value 100, cycle length 1,
  amplitude 20, trend \<open>"stable"\<close> and the French unit name of \<^const>\<open>default_config\<close>.
\<close>

theorem lookup_total:
  "\<exists>c. get_earth_config k = Inr c
       \<and> (k \<in> set supported_keys \<longrightarrow> 0 \<le> amplitude c \<and> 0 < cycle_years c)
       \<and> (k \<notin> set supported_keys \<longrightarrow> c = default_config)"
proof -
  have 1: "k \<in> set supported_keys \<Longrightarrow>
           0 \<le> amplitude (dict_get configs k default_config)
           \<and> 0 < cycle_years (dict_get configs k default_config)"
    by (auto simp: supported_keys_def dict_get_def configs_def)
  have 2: "k \<notin> set supported_keys \<Longrightarrow> dict_get configs k default_config = default_config"
    by (simp add: supported_keys_def dict_get_def configs_def default_config_def)
  show ?thesis using 1 2 by (simp add: get_earth_config_eq)
qed

theorem lookup_total_witness:
  "''co2'' \<in> set supported_keys \<and> ''volcano'' \<notin> set supported_keys
   \<and> (\<exists>c. get_earth_config ''co2'' = Inr c \<and> 0 \<le> amplitude c \<and> 0 < cycle_years c)
   \<and> get_earth_config ''volcano'' = Inr default_config"
  using lookup_total[of "''co2''"] lookup_total[of "''volcano''"]
  by (auto simp: supported_keys_def)

text \<open>
  Claim C8 as stated gives the default profile the trend \<open>variable\<close> and the unit
  \<open>"units"\<close>. For the unrecognised key \<open>"volcano"\<close> the code returns neither.
\<close>

theorem default_config_counterexample:
  "get_earth_config ''volcano'' = Inr default_config
   \<and> base_value default_config = 100 \<and> cycle_years default_config = 1
   \<and> amplitude default_config = 20
   \<and> trend default_config \<noteq> ''variable'' \<and> unit default_config \<noteq> ''units''"
  by (simp add: get_earth_config_eq dict_get_def configs_def default_config_def)

section \<open>The two trend curves\<close>

text \<open>
  The human-impact curve continues each segment at the value the previous one reaches,
  and never decreases.
\<close>

lemma human_impact_continuous:
  "1.0 + 0.005 * real_of_int (1900 - 1800) = human_impact_at 1900
   \<and> 1.5 + 0.01 * real_of_int (1950 - 1900) = human_impact_at 1950
   \<and> 2.0 + 0.02 * real_of_int (1980 - 1950) = human_impact_at 1980
   \<and> 2.6 + 0.03 * real_of_int (2000 - 1980) = human_impact_at 2000"
  by (simp add: human_impact_at_def)

lemma human_impact_mono:
  assumes "y \<le> y'"
  shows "human_impact_at y \<le> human_impact_at y'"
proof -
  have c: "\<And>(z::int) n. (z < numeral n) = (real_of_int z < numeral n)" by simp
  have d: "\<And>z z'::int. (z \<le> z') = (real_of_int z \<le> real_of_int z')" by simp
  show ?thesis
    using assms unfolding human_impact_at_def
    apply simp
    apply (intro conjI impI)
    apply (simp_all only: c d)
    apply argo+
    done
qed

text \<open>
  Claim C1 fails on the climate-trend curve. The segment for 1900 to 1949,
  \<open>1.0 + 0.002 (y - 1900)\<close>, reaches 1.1 at 1950, where the next segment starts at 1.02;
  the segment for 1950 to 1979, \<open>1.02 + 0.005 (y - 1950)\<close>, reaches 1.17 at 1980, where
  the next one starts at 1.1. The curve jumps down at both years, so it is neither
  continuous at its breakpoints nor non-decreasing.
\<close>

theorem climate_trend_drops_at_breakpoints:
  "1.0 + 0.002 * real_of_int (1950 - 1900) = (1.1::real) \<and> climate_trend_at 1950 = 1.02
   \<and> 1.02 + 0.005 * real_of_int (1980 - 1950) = (1.17::real) \<and> climate_trend_at 1980 = 1.1
   \<and> climate_trend_at 1950 < climate_trend_at 1949
   \<and> climate_trend_at 1980 < climate_trend_at 1979"
  by (simp add: climate_trend_at_def)

section \<open>The event overlay\<close>

text \<open>
  Claim C3. The overlay sends every year from 2003 on to the branch of the first bare
  literal, the 2003 branch, so that a row for such a year leaves the pass rewritten by
  that branch's body; and no year at all reaches the 2005, 2011, 2019 or 2020 branch, or
  falls through the chain.
\<close>

theorem first_literal_branch_takes_all:
  "(2003 \<le> y \<longrightarrow> event_branch y = Heatwave_2003)
   \<and> (i < length df \<and> 2003 \<le> Year (df ! i) \<longrightarrow>
        add_climate_events a df ! i = branch_body a Heatwave_2003 (df ! i))
   \<and> event_branch y \<notin> {Katrina_2005, Texas_2011, Australia_2019, Record_2020, No_Branch}"
  by (simp add: event_branch_def truthy_def add_climate_events_map)

theorem first_literal_branch_witness:
  "(2003::int) \<le> 2011 \<and> event_branch 2011 = Heatwave_2003
   \<and> 0 < length [sample_row 2011] \<and> 2003 \<le> Year ([sample_row 2011] ! 0)
   \<and> add_climate_events temperature_analyzer [sample_row 2011] ! 0
     = branch_body temperature_analyzer Heatwave_2003 (sample_row 2011)
   \<and> Risk_Level (add_climate_events temperature_analyzer [sample_row 2011] ! 0) = 70
   \<and> event_branch 2011 \<notin> {Katrina_2005, Texas_2011, Australia_2019, Record_2020, No_Branch}"
  using first_literal_branch_takes_all[of 2011 0 "[sample_row 2011]" temperature_analyzer]
  by (simp add: sample_row_def temperature_analyzer_def)

section \<open>The year range\<close>

lemma analyzer_init:
  assumes "EarthDataAnalyzer dt = Inr a"
  shows "data_type a = dt" and "start_year a = 1850" and "end_year a = 2025"
    and "get_earth_config dt = Inr (config a)"
  using assms by (auto simp: EarthDataAnalyzer_def get_earth_config_eq)

lemma year_dates_eq:
  "year_dates a = map (\<lambda>y. \<lparr>year = y, month = 12, day = 31\<rparr>) [start_year a..end_year a]"
  by (auto simp: year_dates_def date_range_Y_def date_le_def filter_id_conv)

lemma year_dates_years: "map year (year_dates a) = [start_year a..end_year a]"
  by (simp add: year_dates_eq o_def)

lemma year_dates_length:
  assumes "EarthDataAnalyzer dt = Inr a"
  shows "length (year_dates a) = 176"
  using analyzer_init(2,3)[OF assms] by (simp add: year_dates_eq)

lemma year_dates_nth:
  assumes "EarthDataAnalyzer dt = Inr a" and "i < 176"
  shows "year_dates a ! i = \<lparr>year = 1850 + int i, month = 12, day = 31\<rparr>"
proof -
  have "i < length [start_year a..end_year a]"
    using analyzer_init(2,3)[OF assms(1)] assms(2) by simp
  then have "year_dates a ! i = \<lparr>year = [start_year a..end_year a] ! i, month = 12, day = 31\<rparr>"
    by (simp add: year_dates_eq)
  moreover have "[start_year a..end_year a] ! i = start_year a + int i"
    using analyzer_init(2,3)[OF assms(1)] assms(2) by (intro nth_upto) simp
  ultimately show ?thesis using analyzer_init(2)[OF assms(1)] by simp
qed

lemma branch_body_Year [simp]: "Year (branch_body a b r) = Year r"
  by (cases b) (simp_all add: Let_def)

lemma frame_Year_column: "map Year (fst (build_frame a g)) = map year (year_dates a)"
  by (rule nth_equalityI) (simp_all add: frame_length frame_Year)

lemma generate_length:
  assumes "EarthDataAnalyzer dt = Inr a"
  shows "length (fst (generate_earth_data a g)) = 176"
  by (simp add: generate_fst frame_length year_dates_length[OF assms])

text \<open>
  Claim C9. Whatever the variable type, the \<open>Year\<close> column of the generated table is
  the list of the integers from 1850 to 2025: 176 rows, strictly increasing, without
  repetition and without gap.
\<close>

theorem year_column_exact:
  assumes "EarthDataAnalyzer dt = Inr a"
  shows "map Year (fst (generate_earth_data a g)) = [1850..2025]
         \<and> length (fst (generate_earth_data a g)) = 176
         \<and> sorted_wrt (<) (map Year (fst (generate_earth_data a g)))
         \<and> distinct (map Year (fst (generate_earth_data a g)))"
proof -
  have "map Year (fst (generate_earth_data a g)) = map Year (fst (build_frame a g))"
    by (simp add: generate_fst)
  also have "\<dots> = map year (year_dates a)" by (rule frame_Year_column)
  also have "\<dots> = [start_year a..end_year a]" by (rule year_dates_years)
  finally have eq: "map Year (fst (generate_earth_data a g)) = [1850..2025]"
    by (simp only: analyzer_init(2,3)[OF assms])
  have "length (fst (generate_earth_data a g)) = length (year_dates a)"
    by (simp add: generate_fst frame_length)
  then have len: "length (fst (generate_earth_data a g)) = 176"
    by (simp only: year_dates_length[OF assms])
  show ?thesis unfolding eq using eq len
    by (simp only: sorted_wrt_upto distinct_upto simp_thms)
qed

section \<open>The overlay on single rows\<close>

text \<open>
  Claim C4. In any table handed to the overlay, a row for 1815 leaves with 0.9 times its
  base value and 1.2 times its risk level, and a row for 1997 leaves with 1.8 times its
  extreme-event intensity.
\<close>

theorem overlay_1815_and_1997:
  assumes "i < length df"
  shows "(Year (df ! i) = 1815 \<longrightarrow>
            Base_Value (add_climate_events a df ! i) = 0.9 * Base_Value (df ! i)
            \<and> Risk_Level (add_climate_events a df ! i) = 1.2 * Risk_Level (df ! i))
         \<and> (Year (df ! i) = 1997 \<longrightarrow>
            Extreme_Events (add_climate_events a df ! i) = 1.8 * Extreme_Events (df ! i))"
  using assms by (simp add: add_climate_events_map event_branch_def)

theorem overlay_1815_and_1997_witness:
  "0 < length sample_frame \<and> Year (sample_frame ! 0) = 1815
   \<and> Base_Value (add_climate_events co2_analyzer sample_frame ! 0) = 9
   \<and> Risk_Level (add_climate_events co2_analyzer sample_frame ! 0) = 60
   \<and> 1 < length sample_frame \<and> Year (sample_frame ! 1) = 1997
   \<and> Extreme_Events (add_climate_events co2_analyzer sample_frame ! 1) = 3.6"
  using overlay_1815_and_1997[of 0 sample_frame co2_analyzer]
        overlay_1815_and_1997[of 1 sample_frame co2_analyzer]
  by (simp add: sample_frame_def sample_row_def)

section \<open>The smoothing window\<close>

lemma slice_window:
  assumes "i < length xs"
  shows "slice xs (fst (window_bounds (length xs) i)) (snd (window_bounds (length xs) i))
         = map ((!) xs) [i - 5..<min (length xs) (i + 5)]"
proof -
  define m where "m = min (length xs) (i + 5)"
  have m: "m \<le> length xs" by (simp add: m_def)
  have s: "nat (max 0 (int i - 5)) = i - 5" by simp
  have e: "nat (min (int (length xs)) (int i + 5)) = m" by (simp add: m_def)
  have "take (m - (i - 5)) (drop (i - 5) xs) = map ((!) xs) [i - 5..<m]"
  proof (rule nth_equalityI)
    show "length (take (m - (i - 5)) (drop (i - 5) xs)) = length (map ((!) xs) [i - 5..<m])"
      using m by simp
  next
    fix k
    assume "k < length (take (m - (i - 5)) (drop (i - 5) xs))"
    then have k1: "k < m - (i - 5)" by simp
    then have k2: "i - 5 + k < m" by simp
    have "take (m - (i - 5)) (drop (i - 5) xs) ! k = xs ! (i - 5 + k)"
      using k1 k2 m by simp
    moreover have "[i - 5..<m] ! k = i - 5 + k" using k2 by (rule nth_upt)
    moreover have "k < length [i - 5..<m]" using k1 by simp
    ultimately show "take (m - (i - 5)) (drop (i - 5) xs) ! k = map ((!) xs) [i - 5..<m] ! k"
      by (simp del: length_upt nth_upt)
  qed
  then show ?thesis
    unfolding slice_def window_bounds_def fst_conv snd_conv s e m_def .
qed

text \<open>
  Claim C6, as the code has it. The window at index \<open>i\<close> of a sequence of length \<open>n\<close>
  is the run of indices from \<open>max 0 (i - 5)\<close> up to, not including, \<open>min n (i + 5)\<close>. It
  holds exactly 10 elements wherever \<open>5 \<le> i\<close> and \<open>i + 5 \<le> n\<close>: five before the
  index, the index itself and four after it.
\<close>

theorem smoothing_window:
  assumes "i < length xs"
  shows "slice xs (fst (window_bounds (length xs) i)) (snd (window_bounds (length xs) i))
           = map ((!) xs) [i - 5..<min (length xs) (i + 5)]
         \<and> length (slice xs (fst (window_bounds (length xs) i))
                             (snd (window_bounds (length xs) i)))
           = min (length xs) (i + 5) - (i - 5)
         \<and> (5 \<le> i \<and> i + 5 \<le> length xs \<longrightarrow>
              length (slice xs (fst (window_bounds (length xs) i))
                               (snd (window_bounds (length xs) i))) = 10)"
  using slice_window[OF assms] by auto

theorem smoothing_window_witness:
  "(5::nat) < length (replicate 176 (0::real))
   \<and> length (slice (replicate 176 (0::real)) (fst (window_bounds 176 5))
                                              (snd (window_bounds 176 5))) = 10"
  using smoothing_window[of 5 "replicate 176 (0::real)"] by simp

text \<open>
  Claim C6 as stated asks for \<open>min 11 n\<close> elements at interior indices. At index 5 of a
  sequence of 176 elements the window runs from 0 up to, not including, 10.
\<close>

theorem smoothing_window_counterexample:
  "window_bounds 176 5 = (0, 10)
   \<and> length (slice (replicate 176 (0::real)) (fst (window_bounds 176 5))
                                              (snd (window_bounds 176 5))) \<noteq> min 11 176"
  by (simp add: window_bounds_def slice_def)

section \<open>The generated table, row by row\<close>

lemma co2_init: "EarthDataAnalyzer ''co2'' = Inr co2_analyzer"
  by (simp add: EarthDataAnalyzer_def get_earth_config_eq dict_get_def configs_def
                co2_analyzer_def)

lemma temperature_init: "EarthDataAnalyzer ''temperature'' = Inr temperature_analyzer"
  by (simp add: EarthDataAnalyzer_def get_earth_config_eq dict_get_def configs_def
                temperature_analyzer_def)

text \<open>The year column of the table generated for \<open>"co2"\<close>.\<close>

theorem year_column_exact_witness:
  "EarthDataAnalyzer ''co2'' = Inr co2_analyzer
   \<and> map Year (fst (generate_earth_data co2_analyzer spike_rng)) = [1850..2025]
   \<and> length (fst (generate_earth_data co2_analyzer spike_rng)) = 176"
  using year_column_exact[OF co2_init, of spike_rng] co2_init by (simp only: simp_thms)

lemma extreme_event_bounds:
  assumes "1850 \<le> year d"
  shows "1 \<le> fst (extreme_event_at d g)"
    and "fst (extreme_event_at d g) \<le> 1 + 0.5 * real_of_int (year d - 1850) / 100"
  using assms by (simp_all add: extreme_event_at_def random_random_def Let_def)

lemma human_impact_ge_1: "1 \<le> human_impact_at y"
proof -
  have "human_impact_at 1799 \<le> human_impact_at y \<or> human_impact_at y = 1"
    using human_impact_mono[of 1799 y] by (cases "1799 \<le> y") (simp_all add: human_impact_at_def)
  then show ?thesis by (auto simp: human_impact_at_def)
qed

lemma frame_row:
  assumes "EarthDataAnalyzer dt = Inr a" and "i < 176"
  shows "Year (fst (build_frame a g) ! i) = 1850 + int i"
    and "Base_Value (fst (build_frame a g) ! i)
         = fst (earth_cycle_at a \<lparr>year = 1850 + int i, month = 12, day = 31\<rparr>
                  (g\<lparr>pos := pos g + i\<rparr>))"
    and "Risk_Level (fst (build_frame a g) ! i)
         = min 100 (human_impact_at (1850 + int i) * 20
              + (fst (extreme_event_at \<lparr>year = 1850 + int i, month = 12, day = 31\<rparr>
                        (g\<lparr>pos := pos g + 704 + i\<rparr>)) - 1) * 50)"
    and "Smoothed_Value (fst (build_frame a g) ! i)
         = smoothed_at (fst (simulate_earth_cycle a (year_dates a)
                               (g\<lparr>pos := pos g + 352\<rparr>))) i"
    and "1850 + int i \<le> 2020 \<Longrightarrow>
         Future_Projection (fst (build_frame a g) ! i)
         = fst (earth_cycle_at a \<lparr>year = 1850 + int i, month = 12, day = 31\<rparr>
                  (g\<lparr>pos := pos g + 880 + i\<rparr>))"
    and "Extreme_Events (fst (build_frame a g) ! i)
         = fst (extreme_event_at \<lparr>year = 1850 + int i, month = 12, day = 31\<rparr>
                  (g\<lparr>pos := pos g + 176 + i\<rparr>))"
proof -
  have n: "length (year_dates a) = 176" by (rule year_dates_length[OF assms(1)])
  have i: "i < length (year_dates a)" using assms(2) n by simp
  have d: "year_dates a ! i = \<lparr>year = 1850 + int i, month = 12, day = 31\<rparr>"
    by (rule year_dates_nth[OF assms])
  show "Year (fst (build_frame a g) ! i) = 1850 + int i"
    using frame_Year[OF i, of g] by (simp add: d)
  show "Base_Value (fst (build_frame a g) ! i)
         = fst (earth_cycle_at a \<lparr>year = 1850 + int i, month = 12, day = 31\<rparr>
                  (g\<lparr>pos := pos g + i\<rparr>))"
    using frame_Base_Value[OF i, of g] by (simp add: d)
  show "Risk_Level (fst (build_frame a g) ! i)
         = min 100 (human_impact_at (1850 + int i) * 20
              + (fst (extreme_event_at \<lparr>year = 1850 + int i, month = 12, day = 31\<rparr>
                        (g\<lparr>pos := pos g + 704 + i\<rparr>)) - 1) * 50)"
    using frame_Risk_Level[OF i, of g] by (simp add: d n)
  show "Smoothed_Value (fst (build_frame a g) ! i)
         = smoothed_at (fst (simulate_earth_cycle a (year_dates a)
                               (g\<lparr>pos := pos g + 352\<rparr>))) i"
    using frame_Smoothed_Value[OF i, of g] by (simp add: n)
  show "Extreme_Events (fst (build_frame a g) ! i)
         = fst (extreme_event_at \<lparr>year = 1850 + int i, month = 12, day = 31\<rparr>
                  (g\<lparr>pos := pos g + 176 + i\<rparr>))"
    using frame_Extreme_Events[OF i, of g] by (simp add: d n)
  show "Future_Projection (fst (build_frame a g) ! i)
         = fst (earth_cycle_at a \<lparr>year = 1850 + int i, month = 12, day = 31\<rparr>
                  (g\<lparr>pos := pos g + 880 + i\<rparr>))" if "1850 + int i \<le> 2020"
    using frame_Future_Projection[OF i, of g] that by (simp add: d n)
qed

lemma generate_nth:
  assumes "EarthDataAnalyzer dt = Inr a" and "i < 176"
  shows "fst (generate_earth_data a g) ! i
         = branch_body a (event_branch (1850 + int i)) (fst (build_frame a g) ! i)"
proof -
  have "i < length (fst (build_frame a g))"
    using assms(2) by (simp add: frame_length year_dates_length[OF assms(1)])
  then show ?thesis by (simp add: generate_fst frame_row(1)[OF assms])
qed

section \<open>The risk level\<close>

lemma pre_overlay_risk_bounds:
  assumes "EarthDataAnalyzer dt = Inr a" and "i < 176"
  shows "0 \<le> Risk_Level (fst (build_frame a g) ! i)"
    and "Risk_Level (fst (build_frame a g) ! i) \<le> 100"
    and "1930 \<le> 1850 + int i \<Longrightarrow> 1850 + int i \<le> 1939 \<Longrightarrow>
         Risk_Level (fst (build_frame a g) ! i) * 1.3 \<le> 100"
proof -
  let ?d = "\<lparr>year = 1850 + int i, month = 12, day = 31\<rparr>"
  let ?e = "fst (extreme_event_at ?d (g\<lparr>pos := pos g + 704 + i\<rparr>))"
  let ?h = "human_impact_at (1850 + int i)"
  have r: "Risk_Level (fst (build_frame a g) ! i) = min 100 (?h * 20 + (?e - 1) * 50)"
    by (rule frame_row(3)[OF assms])
  have e1: "1 \<le> ?e" by (rule extreme_event_bounds(1)) simp
  have e2: "?e \<le> 1 + 0.5 * real i / 100"
    using extreme_event_bounds(2)[of ?d "g\<lparr>pos := pos g + 704 + i\<rparr>"] by simp
  have h1: "1 \<le> ?h" by (rule human_impact_ge_1)
  show "0 \<le> Risk_Level (fst (build_frame a g) ! i)"
    unfolding r using e1 h1 by simp
  show "Risk_Level (fst (build_frame a g) ! i) \<le> 100"
    unfolding r by simp
  show "Risk_Level (fst (build_frame a g) ! i) * 1.3 \<le> 100"
    if "1930 \<le> 1850 + int i" and "1850 + int i \<le> 1939"
  proof -
    have i1: "real i \<le> 89" using that(2) by simp
    have h: "?h = 1 + real i / 100"
      using that by (simp add: human_impact_at_def field_simps)
    have e3: "?e \<le> 1 + real i / 200" using e2 by simp
    have "?h * 20 + (?e - 1) * 50 \<le> 1201 / 20" unfolding h using e3 i1 by argo
    moreover have "min 100 (?h * 20 + (?e - 1) * 50) \<le> ?h * 20 + (?e - 1) * 50" by simp
    ultimately have "Risk_Level (fst (build_frame a g) ! i) \<le> 1201 / 20"
      unfolding r by linarith
    then show ?thesis by simp
  qed
qed

lemma branch_body_risk_bounded:
  assumes "1850 \<le> y" and "0 \<le> Risk_Level r" and "Risk_Level r \<le> 100"
    and "1930 \<le> y \<and> y \<le> 1939 \<longrightarrow> Risk_Level r * 1.3 \<le> 100"
  shows "0 \<le> Risk_Level (branch_body a (event_branch y) r)
         \<and> Risk_Level (branch_body a (event_branch y) r) \<le> 100"
  using assms by (auto simp: event_branch_def truthy_def Let_def)

text \<open>
  Claim C5. For every variable type, the risk level of every row of the final table,
  after the overlay has rewritten it, lies between 0 and 100. The only unclamped
  rewriting that a generated year can meet is the factor 1.3 of 1930 to 1939, where the
  risk level is at most 60.05 beforehand.
\<close>

theorem risk_level_bounded:
  assumes "EarthDataAnalyzer dt = Inr a" and "r \<in> set (fst (generate_earth_data a g))"
  shows "0 \<le> Risk_Level r \<and> Risk_Level r \<le> 100"
proof -
  have len: "length (fst (generate_earth_data a g)) = 176"
    by (rule generate_length[OF assms(1)])
  from assms(2) obtain i where i: "i < 176" and r: "r = fst (generate_earth_data a g) ! i"
    unfolding in_set_conv_nth len by blast
  have "r = branch_body a (event_branch (1850 + int i)) (fst (build_frame a g) ! i)"
    unfolding r by (rule generate_nth[OF assms(1) i])
  moreover have "0 \<le> Risk_Level (branch_body a (event_branch (1850 + int i))
                                      (fst (build_frame a g) ! i))
        \<and> Risk_Level (branch_body a (event_branch (1850 + int i))
                                    (fst (build_frame a g) ! i)) \<le> 100"
    using pre_overlay_risk_bounds[OF assms(1) i, of g]
    by (intro branch_body_risk_bounded) simp_all
  ultimately show ?thesis by simp
qed

theorem risk_level_bounded_witness:
  "EarthDataAnalyzer ''temperature'' = Inr temperature_analyzer
   \<and> fst (generate_earth_data temperature_analyzer spike_rng) ! 85
       \<in> set (fst (generate_earth_data temperature_analyzer spike_rng))
   \<and> 0 \<le> Risk_Level (fst (generate_earth_data temperature_analyzer spike_rng) ! 85)
   \<and> Risk_Level (fst (generate_earth_data temperature_analyzer spike_rng) ! 85) \<le> 100"
proof -
  have "length (fst (generate_earth_data temperature_analyzer spike_rng)) = 176"
    by (rule generate_length[OF temperature_init])
  then have m: "fst (generate_earth_data temperature_analyzer spike_rng) ! 85
                \<in> set (fst (generate_earth_data temperature_analyzer spike_rng))"
    by simp
  show ?thesis using risk_level_bounded[OF temperature_init m] temperature_init m by simp
qed

section \<open>The overlay on the temperature table\<close>

text \<open>
  Claim C10. For the temperature variable, every generated row whose year is outside
  1930 to 1939, 1982 to 1983 and 1997 to 1998 (so every other year from 1850 to 2025, and
  not the year 2003 alone) leaves the overlay with its base value multiplied by 1.1 and
  its risk level set to \<open>min 100 (1.4 * risk)\<close>.
\<close>

theorem temperature_overlay_everywhere:
  assumes "EarthDataAnalyzer ''temperature'' = Inr a" and "i < 176"
    and "\<not> (1930 \<le> 1850 + int i \<and> 1850 + int i \<le> 1939)"
    and "\<not> (1982 \<le> 1850 + int i \<and> 1850 + int i \<le> 1983)"
    and "\<not> (1997 \<le> 1850 + int i \<and> 1850 + int i \<le> 1998)"
  shows "Year (fst (generate_earth_data a g) ! i) = 1850 + int i
         \<and> Base_Value (fst (generate_earth_data a g) ! i)
           = Base_Value (fst (build_frame a g) ! i) * 1.1
         \<and> Risk_Level (fst (generate_earth_data a g) ! i)
           = min 100 (Risk_Level (fst (build_frame a g) ! i) * 1.4)"
proof -
  have b: "event_branch (1850 + int i) = Heatwave_2003"
    using assms(3-5) by (simp add: event_branch_def truthy_def)
  have t: "data_type a = ''temperature''" by (rule analyzer_init(1)[OF assms(1)])
  show ?thesis
    unfolding generate_nth[OF assms(1,2)] b
    using frame_row(1)[OF assms(1,2), of g] t by (simp add: Let_def)
qed

theorem temperature_overlay_everywhere_witness:
  "EarthDataAnalyzer ''temperature'' = Inr temperature_analyzer
   \<and> Year (fst (generate_earth_data temperature_analyzer spike_rng) ! 0) = 1850
   \<and> Base_Value (fst (generate_earth_data temperature_analyzer spike_rng) ! 0)
     = Base_Value (fst (build_frame temperature_analyzer spike_rng) ! 0) * 1.1
   \<and> Risk_Level (fst (generate_earth_data temperature_analyzer spike_rng) ! 0)
     = min 100 (Risk_Level (fst (build_frame temperature_analyzer spike_rng) ! 0) * 1.4)"
  using temperature_overlay_everywhere[OF temperature_init, of 0 spike_rng] temperature_init
  by simp

section \<open>The columns that simulate the cycle again\<close>

lemma branch_body_Smoothed_Value [simp]: "Smoothed_Value (branch_body a b r) = Smoothed_Value r"
  by (cases b) (simp_all add: Let_def)

lemma branch_body_Future_Projection [simp]:
  "Future_Projection (branch_body a b r) = Future_Projection r"
  by (cases b) (simp_all add: Let_def)

text \<open>
  Claim C2, as the code has it. The smoothing step calls the cycle generator again, so
  the smoothed value at index \<open>i\<close> is the mean, over the indices from \<open>max 0 (i - 5)\<close>
  up to, not including, \<open>min 176 (i + 5)\<close>, of a second simulation of the cycle for the
  same years. Its element \<open>j\<close> is computed as the base value of row \<open>j\<close> is, but from the
  generator's draw number \<open>352 + j\<close> where the base value used draw number \<open>j\<close>.
\<close>

theorem smoothed_value_of_resimulated_cycle:
  assumes "EarthDataAnalyzer dt = Inr a" and "i < 176" and "j < 176"
  shows "Smoothed_Value (fst (generate_earth_data a g) ! i)
           = mean (slice (fst (simulate_earth_cycle a (year_dates a) (g\<lparr>pos := pos g + 352\<rparr>)))
                         (max 0 (int i - 5)) (min 176 (int i + 5)))
         \<and> fst (simulate_earth_cycle a (year_dates a) (g\<lparr>pos := pos g + 352\<rparr>)) ! j
           = fst (earth_cycle_at a \<lparr>year = 1850 + int j, month = 12, day = 31\<rparr>
                    (g\<lparr>pos := pos g + 352 + j\<rparr>))
         \<and> Base_Value (fst (build_frame a g) ! j)
           = fst (earth_cycle_at a \<lparr>year = 1850 + int j, month = 12, day = 31\<rparr>
                    (g\<lparr>pos := pos g + j\<rparr>))"
proof -
  have n: "length (year_dates a) = 176" by (rule year_dates_length[OF assms(1)])
  let ?cyc = "fst (simulate_earth_cycle a (year_dates a) (g\<lparr>pos := pos g + 352\<rparr>))"
  have "Smoothed_Value (fst (generate_earth_data a g) ! i) = smoothed_at ?cyc i"
    unfolding generate_nth[OF assms(1,2)] by (simp add: frame_row(4)[OF assms(1,2)])
  also have "\<dots> = mean (slice ?cyc (max 0 (int i - 5)) (min 176 (int i + 5)))"
    by (simp add: smoothed_at_def n window_bounds_def)
  finally have 1: "Smoothed_Value (fst (generate_earth_data a g) ! i)
                   = mean (slice ?cyc (max 0 (int i - 5)) (min 176 (int i + 5)))" .
  have "?cyc ! j = fst (earth_cycle_at a (year_dates a ! j) (g\<lparr>pos := pos g + 352 + j\<rparr>))"
    using assms(3) n by (simp add: earth_cycle_nth)
  then have 2: "?cyc ! j = fst (earth_cycle_at a \<lparr>year = 1850 + int j, month = 12, day = 31\<rparr>
                                  (g\<lparr>pos := pos g + 352 + j\<rparr>))"
    by (simp add: year_dates_nth[OF assms(1,3)])
  show ?thesis using 1 2 frame_row(2)[OF assms(1,3), of g] by simp
qed

text \<open>
  Claim C7, as the code has it. The projection step calls the cycle generator again too.
  For a year up to 2020 the projection is the value of that second simulation for the
  year, with no projection noise applied: the cycle formula of the row with the
  generator's draw number \<open>880 + i\<close> in place of draw number \<open>i\<close>. It equals the row's
  base value before the overlay whenever the two draws are equal.
\<close>

theorem future_projection_of_resimulated_cycle:
  assumes "EarthDataAnalyzer dt = Inr a" and "i < 176" and "1850 + int i \<le> 2020"
  shows "Future_Projection (fst (generate_earth_data a g) ! i)
           = fst (earth_cycle_at a \<lparr>year = 1850 + int i, month = 12, day = 31\<rparr>
                    (g\<lparr>pos := pos g + 880 + i\<rparr>))
         \<and> Base_Value (fst (build_frame a g) ! i)
           = fst (earth_cycle_at a \<lparr>year = 1850 + int i, month = 12, day = 31\<rparr>
                    (g\<lparr>pos := pos g + i\<rparr>))
         \<and> (gauss g (pos g + 880 + i) = gauss g (pos g + i) \<longrightarrow>
              Future_Projection (fst (generate_earth_data a g) ! i)
              = Base_Value (fst (build_frame a g) ! i))"
proof -
  have 1: "Future_Projection (fst (generate_earth_data a g) ! i)
           = fst (earth_cycle_at a \<lparr>year = 1850 + int i, month = 12, day = 31\<rparr>
                    (g\<lparr>pos := pos g + 880 + i\<rparr>))"
    unfolding generate_nth[OF assms(1,2)] by (simp add: frame_row(5)[OF assms])
  have 2: "Base_Value (fst (build_frame a g) ! i)
           = fst (earth_cycle_at a \<lparr>year = 1850 + int i, month = 12, day = 31\<rparr>
                    (g\<lparr>pos := pos g + i\<rparr>))"
    by (rule frame_row(2)[OF assms(1,2)])
  have 3: "Future_Projection (fst (generate_earth_data a g) ! i)
           = Base_Value (fst (build_frame a g) ! i)"
    if "gauss g (pos g + 880 + i) = gauss g (pos g + i)"
    unfolding 1 2 using that by (simp add: earth_cycle_at_def random_normal_def Let_def)
  show ?thesis using 1 2 3 by simp
qed

lemma sin_whole_turns: "sin (2 * pi * real j) = 0"
  using sin_int_2pin[of "int j"] by simp

lemma take_5:
  assumes "5 \<le> length xs"
  shows "take 5 xs = [xs ! 0, xs ! 1, xs ! 2, xs ! 3, xs ! 4]"
proof (rule nth_equalityI)
  show "length (take 5 xs) = length [xs ! 0, xs ! 1, xs ! 2, xs ! 3, xs ! 4]"
    using assms by simp
next
  fix k assume "k < length (take 5 xs)"
  then have "k < 5" by simp
  then consider "k = 0" | "k = 1" | "k = 2" | "k = 3" | "k = 4" by linarith
  then show "take 5 xs ! k = [xs ! 0, xs ! 1, xs ! 2, xs ! 3, xs ! 4] ! k"
    by cases simp_all
qed

lemma co2_cycle_value:
  "fst (earth_cycle_at co2_analyzer \<lparr>year = 1850 + int j, month = 12, day = 31\<rparr> g)
   = 280 * (1 + real j / 10000) + gauss g (pos g) / 2"
  by (simp add: earth_cycle_at_def random_normal_def co2_analyzer_def croissante_def
                sin_whole_turns Let_def)

lemma co2_row_unchanged:
  assumes "i < 176" and "1850 + int i < 1930"
  shows "fst (generate_earth_data co2_analyzer g) ! i = fst (build_frame co2_analyzer g) ! i"
  unfolding generate_nth[OF co2_init assms(1)] using assms(2)
  by (simp add: event_branch_def truthy_def co2_analyzer_def)

lemma co2_base_value:
  assumes "i < 176" and "1850 + int i < 1930"
  shows "Base_Value (fst (generate_earth_data co2_analyzer spike_rng) ! i)
         = 280 * (1 + real i / 10000) + (if i = 0 then 1 else 0) / 2"
  unfolding co2_row_unchanged[OF assms] frame_row(2)[OF co2_init assms(1)] co2_cycle_value
  by (simp add: spike_rng_def)

text \<open>
  Claim C7 as stated fails for \<open>"co2"\<close> at the year 1850 when the first normal deviate
  is 1 and the later ones are 0: the base value is 280.5, before and after the overlay,
  and the projection is 280.
\<close>

theorem future_projection_counterexample:
  "EarthDataAnalyzer ''co2'' = Inr co2_analyzer
   \<and> Year (fst (generate_earth_data co2_analyzer spike_rng) ! 0) = 1850
   \<and> Future_Projection (fst (generate_earth_data co2_analyzer spike_rng) ! 0) = 280
   \<and> Base_Value (fst (build_frame co2_analyzer spike_rng) ! 0) = 280.5
   \<and> Base_Value (fst (generate_earth_data co2_analyzer spike_rng) ! 0) = 280.5"
proof -
  have u: "fst (generate_earth_data co2_analyzer spike_rng) ! 0
           = fst (build_frame co2_analyzer spike_rng) ! 0"
    by (rule co2_row_unchanged) simp_all
  have y: "Year (fst (build_frame co2_analyzer spike_rng) ! 0) = 1850"
    using frame_row(1)[OF co2_init, of 0 spike_rng] by simp
  have f: "Future_Projection (fst (build_frame co2_analyzer spike_rng) ! 0) = 280"
    using frame_row(5)[OF co2_init, of 0 spike_rng] co2_cycle_value[of 0]
    by (simp add: spike_rng_def)
  have b: "Base_Value (fst (build_frame co2_analyzer spike_rng) ! 0) = 280.5"
    using frame_row(2)[OF co2_init, of 0 spike_rng] co2_cycle_value[of 0]
    by (simp add: spike_rng_def)
  show ?thesis using co2_init u y f b by simp
qed

text \<open>The same table at the year 1851, where both draws are 0.\<close>

theorem future_projection_of_resimulated_cycle_witness:
  "EarthDataAnalyzer ''co2'' = Inr co2_analyzer \<and> (1::nat) < 176 \<and> 1850 + int 1 \<le> 2020
   \<and> gauss spike_rng (pos spike_rng + 880 + 1) = gauss spike_rng (pos spike_rng + 1)
   \<and> Future_Projection (fst (generate_earth_data co2_analyzer spike_rng) ! 1)
     = Base_Value (fst (build_frame co2_analyzer spike_rng) ! 1)"
  using future_projection_of_resimulated_cycle[OF co2_init, of 1 spike_rng] co2_init
  by (simp add: spike_rng_def)

text \<open>The smoothed value of the first row of that table.\<close>

theorem smoothed_value_of_resimulated_cycle_witness:
  "EarthDataAnalyzer ''co2'' = Inr co2_analyzer \<and> (0::nat) < 176
   \<and> Smoothed_Value (fst (generate_earth_data co2_analyzer spike_rng) ! 0)
     = mean (slice (fst (simulate_earth_cycle co2_analyzer (year_dates co2_analyzer)
                           (spike_rng\<lparr>pos := 352\<rparr>))) 0 5)"
  using smoothed_value_of_resimulated_cycle[OF co2_init, of 0 0 spike_rng] co2_init
  by (simp add: spike_rng_def)

text \<open>
  Claim C2 as stated fails on the same table at index 0: the mean of the \<open>Base_Value\<close>
  column over the indices 0 to 4 is 280.156, and the smoothed value is 280.056.
\<close>

theorem smoothed_value_counterexample:
  "EarthDataAnalyzer ''co2'' = Inr co2_analyzer
   \<and> length (fst (generate_earth_data co2_analyzer spike_rng)) = 176
   \<and> Smoothed_Value (fst (generate_earth_data co2_analyzer spike_rng) ! 0) = 280.056
   \<and> mean (slice (map Base_Value (fst (generate_earth_data co2_analyzer spike_rng)))
                  (max 0 (int 0 - 5)) (min 176 (int 0 + 5))) = 280.156"
proof -
  let ?gen = "fst (generate_earth_data co2_analyzer spike_rng)"
  let ?cyc = "fst (simulate_earth_cycle co2_analyzer (year_dates co2_analyzer)
                     (spike_rng\<lparr>pos := 352\<rparr>))"
  have len: "length ?gen = 176" by (rule generate_length[OF co2_init])
  have n: "length (year_dates co2_analyzer) = 176" by (rule year_dates_length[OF co2_init])
  have c: "?cyc ! j = 280 * (1 + real j / 10000)" if "j < 176" for j
  proof -
    have "?cyc ! j = fst (earth_cycle_at co2_analyzer (year_dates co2_analyzer ! j)
                            (spike_rng\<lparr>pos := 352 + j\<rparr>))"
      using that n by (simp add: earth_cycle_nth spike_rng_def)
    then show ?thesis
      by (simp add: year_dates_nth[OF co2_init that] co2_cycle_value spike_rng_def)
  qed
  have "Smoothed_Value (?gen ! 0) = smoothed_at ?cyc 0"
    using co2_row_unchanged[of 0 spike_rng] frame_row(4)[OF co2_init, of 0 spike_rng]
    by (simp add: spike_rng_def)
  also have "\<dots> = mean (take 5 ?cyc)"
    by (simp add: smoothed_at_def window_bounds_def slice_def n)
  also have "\<dots> = mean [?cyc ! 0, ?cyc ! 1, ?cyc ! 2, ?cyc ! 3, ?cyc ! 4]"
    by (subst take_5) (simp_all add: n)
  also have "\<dots> = 280.056" by (simp add: c mean_def)
  finally have s: "Smoothed_Value (?gen ! 0) = 280.056" .
  have "mean (slice (map Base_Value ?gen) (max 0 (int 0 - 5)) (min 176 (int 0 + 5)))
        = mean (take 5 (map Base_Value ?gen))"
    by (simp add: slice_def)
  also have "\<dots> = mean [map Base_Value ?gen ! 0, map Base_Value ?gen ! 1,
                          map Base_Value ?gen ! 2, map Base_Value ?gen ! 3,
                          map Base_Value ?gen ! 4]"
    by (subst take_5) (simp_all add: len)
  also have "\<dots> = 280.156" by (simp add: len co2_base_value mean_def)
  finally show ?thesis using co2_init len s by simp
qed

end
